theory Spec2Isabelle
  imports Main "HOL-Library.Sublist"
begin

section \<open>Python strings\<close>

text \<open>
  A label is a Python \<open>str\<close>. It is modelled as a \<open>string\<close> whose characters stand for
  the code points below 256, so \<open>length\<close> is Python's \<open>len\<close>. On these code points
  \<open>str.lower()\<close> works character by character: it adds 32 to the capital letters
  \<open>A\<close>..\<open>Z\<close> and to the capital letters of the Latin-1 block (192..222 except the
  multiplication sign 215) and leaves every other character as it is.
\<close>

definition char_lower :: "char \<Rightarrow> char" where
  "char_lower c =
     (let n = (of_char c :: nat)
      in if (65 \<le> n \<and> n \<le> 90) \<or> (192 \<le> n \<and> n \<le> 222 \<and> n \<noteq> 215)
         then char_of (n + 32) else c)"

definition str_lower :: "string \<Rightarrow> string" where
  "str_lower s = map char_lower s"

text \<open>Python's \<open>needle in hay\<close> on two strings: \<open>needle\<close> occurs in \<open>hay\<close> as a
  contiguous run of characters (the empty string occurs in every string).\<close>

fun str_in :: "string \<Rightarrow> string \<Rightarrow> bool" where
  "str_in needle [] = (needle = [])"
| "str_in needle (c # cs) = (prefix needle (c # cs) \<or> str_in needle cs)"

text \<open>Python's \<open>s.replace(' ', '_')\<close>.\<close>

definition replace_spaces :: "string \<Rightarrow> string" where
  "replace_spaces s = map (\<lambda>c. if c = CHR '' '' then CHR ''_'' else c) s"

section \<open>The legend data model\<close>

text \<open>
  \<open>MapUnitType\<close>, \<open>MapUnit\<close> and \<open>Legend\<close> come from the library \<open>cmaas_utils\<close>. The
  record has the fields the three programs read or write; the coordinates of a
  rectangle are never inspected, so their type is left open as \<open>'r\<close>. The abbreviation
  and the description region are optional (\<open>None\<close> in Python).
\<close>

datatype MapUnitType = POINT | LINE | POLYGON | UNKNOWN

record 'r MapUnit =
  label :: string
  abbreviation' :: "string option"
  type :: MapUnitType
  label_bbox :: 'r
  description :: "'r option"

text \<open>The known-labels dictionary, as read from its JSON file: four keys, each a list
  of strings.\<close>

record KnownLabels =
  Points :: "string list"
  Lines :: "string list"
  Polygons :: "string list"
  Unknown :: "string list"

text \<open>\<open>stat_dict\<close> of \<open>prep_stepup.main\<close>: six lists that only grow.\<close>

record stat_dict =
  stat_Points :: "string list"
  stat_Lines :: "string list"
  stat_Likely_Lines :: "string list"
  stat_Polygons :: "string list"
  stat_Likely_Polygons :: "string list"
  stat_Unknown :: "string list"

datatype error = AttributeError | TypeError | RemoteError

section \<open>prep_stepup: the label classifier\<close>

text \<open>The loop \<open>for line in true_labels['Lines']: if line in label: ... break\<close>: the
  first entry of the list, in its order, that occurs in the lowercased label.\<close>

fun scan_lines :: "string list \<Rightarrow> string \<Rightarrow> string option" where
  "scan_lines [] lbl = None"
| "scan_lines (line # rest) lbl = (if str_in line lbl then Some line else scan_lines rest lbl)"

text \<open>
  The body of the inner loop of \<open>main\<close> for one feature. The state is the feature list
  of \<open>output_legend\<close> and \<open>stat_dict\<close>. When the label is empty it is overwritten with
  the abbreviation; if that is \<open>None\<close>, \<open>feature.label.lower()\<close> raises
  \<open>AttributeError\<close>, which nothing catches.
\<close>

definition classify_feature ::
  "KnownLabels \<Rightarrow> 'r MapUnit \<Rightarrow> 'r MapUnit list \<times> stat_dict
     \<Rightarrow> error + ('r MapUnit list \<times> stat_dict)" where
  "classify_feature true_labels feature st =
     (case st of (output_features, stat) \<Rightarrow>
      (case (if label feature = [] then abbreviation' feature else Some (label feature)) of
         None \<Rightarrow> Inl AttributeError
       | Some l \<Rightarrow>
           (let feature = feature\<lparr>label := l, type := UNKNOWN\<rparr>;
                lbl = str_lower l
            in if lbl \<in> set (Points true_labels) then
                 Inr (output_features @ [feature\<lparr>type := POINT\<rparr>],
                      stat\<lparr>stat_Points := stat_Points stat @ [lbl]\<rparr>)
               else if lbl \<in> set (Lines true_labels) then
                 Inr (output_features @ [feature\<lparr>type := LINE\<rparr>],
                      stat\<lparr>stat_Lines := stat_Lines stat @ [lbl]\<rparr>)
               else if lbl \<in> set (Polygons true_labels) then
                 Inr (output_features @ [feature\<lparr>type := POLYGON\<rparr>],
                      stat\<lparr>stat_Polygons := stat_Polygons stat @ [lbl]\<rparr>)
               else if length l < 5 then
                 Inr (output_features @ [feature\<lparr>type := POLYGON\<rparr>],
                      stat\<lparr>stat_Likely_Polygons := stat_Likely_Polygons stat @ [lbl]\<rparr>)
               else
                 (case scan_lines (Lines true_labels) lbl of
                    Some line \<Rightarrow>
                      Inr (output_features @ [feature\<lparr>type := LINE\<rparr>],
                           stat\<lparr>stat_Likely_Lines := stat_Likely_Lines stat @ [line]\<rparr>)
                  | None \<Rightarrow>
                      Inr (output_features @ [feature\<lparr>type := UNKNOWN\<rparr>],
                           stat\<lparr>stat_Unknown := stat_Unknown stat @ [lbl]\<rparr>)))))"

text \<open>\<open>for feature in legend.features\<close>: the features in order, stopping at the first
  exception.\<close>

fun classify_features ::
  "KnownLabels \<Rightarrow> 'r MapUnit list \<Rightarrow> 'r MapUnit list \<times> stat_dict
     \<Rightarrow> error + ('r MapUnit list \<times> stat_dict)" where
  "classify_features true_labels [] st = Inr st"
| "classify_features true_labels (feature # rest) st =
     (case classify_feature true_labels feature st of
        Inl e \<Rightarrow> Inl e
      | Inr st' \<Rightarrow> classify_features true_labels rest st')"

text \<open>One iteration of the outer loop: a fresh \<open>output_legend\<close>, the running
  \<open>stat_dict\<close>.\<close>

definition classify_legend ::
  "KnownLabels \<Rightarrow> 'r MapUnit list \<Rightarrow> stat_dict \<Rightarrow> error + ('r MapUnit list \<times> stat_dict)" where
  "classify_legend true_labels features stat = classify_features true_labels features ([], stat)"

definition empty_stat :: stat_dict where
  "empty_stat = \<lparr>stat_Points = [], stat_Lines = [], stat_Likely_Lines = [], stat_Polygons = [],
     stat_Likely_Polygons = [], stat_Unknown = []\<rparr>"

text \<open>The types of the units of the output legend, in order.\<close>

definition assigned_types :: "KnownLabels \<Rightarrow> 'r MapUnit list \<Rightarrow> error + MapUnitType list" where
  "assigned_types true_labels features =
     (case classify_legend true_labels features empty_stat of
        Inl e \<Rightarrow> Inl e
      | Inr (output_features, stat) \<Rightarrow> Inr (map type output_features))"

text \<open>The scenario of the specification: the dictionary and five units that carry
  only a label.\<close>

definition scenario_labels :: KnownLabels where
  "scenario_labels = \<lparr>Points = [''spring''], Lines = [''fault''], Polygons = [''qal''], Unknown = []\<rparr>"

definition unit_of_label :: "string \<Rightarrow> unit MapUnit" where
  "unit_of_label l = \<lparr>label = l, abbreviation' = None, type = UNKNOWN, label_bbox = (),
     description = None\<rparr>"

definition scenario_units :: "unit MapUnit list" where
  "scenario_units = map unit_of_label [''Spring'', ''Normal Fault'', ''Qal'', ''Xyz'', ''AB'']"

section \<open>prep_stepup: writing the annotation-tool document\<close>

text \<open>
  One shape record of the document and the document itself. \<open>group_id\<close> is always
  \<open>None\<close>, the \<open>flags\<close> of a shape the empty dictionary and the \<open>flags\<close> of the
  document the dictionary with the single key \<open>source\<close>; dictionaries are written
  as association lists.
\<close>

record 'r shape =
  shape_label :: string
  points :: 'r
  group_id :: "unit option"
  shape_type :: string
  shape_flags :: "(string \<times> string) list"

record 'r stepup_json =
  version :: string
  flags :: "(string \<times> string) list"
  shapes :: "'r shape list"

text \<open>
  The body of the loop of \<open>saveSteupUpJson\<close> for one unit. The state is the list of the
  units already rewritten (the label is overwritten in place) and
  \<open>output_json['shapes']\<close>. \<open>MapUnitType.to_str\<close> belongs to \<open>cmaas_utils\<close>; it is the
  parameter \<open>to_str\<close>.
\<close>

definition save_map_unit ::
  "(MapUnitType \<Rightarrow> string) \<Rightarrow> 'r MapUnit \<Rightarrow> 'r MapUnit list \<times> 'r shape list
     \<Rightarrow> 'r MapUnit list \<times> 'r shape list" where
  "save_map_unit to_str map_unit st =
     (case st of (written, shps) \<Rightarrow>
      (let map_unit = map_unit\<lparr>label := replace_spaces (label map_unit)\<rparr>;
           unit_label = (if type map_unit = UNKNOWN then label map_unit
                         else label map_unit @ ''_'' @ to_str (type map_unit));
           shps = shps @ [\<lparr>shape_label = unit_label, points = label_bbox map_unit,
                     group_id = None, shape_type = ''rectangle'', shape_flags = []\<rparr>]
       in (case description map_unit of
             None \<Rightarrow> (written @ [map_unit], shps)
           | Some region \<Rightarrow>
               (written @ [map_unit],
                shps @ [\<lparr>shape_label = unit_label @ ''_desc'', points = region,
                     group_id = None, shape_type = ''rectangle'', shape_flags = []\<rparr>]))))"

fun save_map_units ::
  "(MapUnitType \<Rightarrow> string) \<Rightarrow> 'r MapUnit list \<Rightarrow> 'r MapUnit list \<times> 'r shape list
     \<Rightarrow> 'r MapUnit list \<times> 'r shape list" where
  "save_map_units to_str [] st = st"
| "save_map_units to_str (map_unit # rest) st =
     save_map_units to_str rest (save_map_unit to_str map_unit st)"

text \<open>\<open>saveSteupUpJson\<close>: the document that is dumped to the file, and the features of
  the legend after the call.\<close>

definition saveSteupUpJson ::
  "(MapUnitType \<Rightarrow> string) \<Rightarrow> 'r MapUnit list \<Rightarrow> 'r stepup_json \<times> 'r MapUnit list" where
  "saveSteupUpJson to_str features =
     (case save_map_units to_str features ([], []) of
        (written, shps) \<Rightarrow>
          (\<lparr>version = ''5.0.1'', flags = [(''source'', ''StepUp'')], shapes = shps\<rparr>, written))"

text \<open>
  What the specification says of one unit, in its words: the label with its spaces
  replaced, one rectangle labelled with the label and the type suffix (no suffix for
  Unknown), and for a unit with a description region a second rectangle with the same
  label and \<open>_desc\<close>.
\<close>

definition spec_label :: "(MapUnitType \<Rightarrow> string) \<Rightarrow> 'r MapUnit \<Rightarrow> string" where
  "spec_label to_str u =
     (if type u = UNKNOWN then replace_spaces (label u)
      else replace_spaces (label u) @ ''_'' @ to_str (type u))"

definition rectangle :: "string \<Rightarrow> 'r \<Rightarrow> 'r shape" where
  "rectangle l r = \<lparr>shape_label = l, points = r, group_id = None, shape_type = ''rectangle'',
     shape_flags = []\<rparr>"

definition spec_shapes :: "(MapUnitType \<Rightarrow> string) \<Rightarrow> 'r MapUnit \<Rightarrow> 'r shape list" where
  "spec_shapes to_str u =
     rectangle (spec_label to_str u) (label_bbox u) #
     (case description u of
        None \<Rightarrow> []
      | Some region \<Rightarrow> [rectangle (spec_label to_str u @ ''_desc'') region])"

section \<open>gen_known_labels: the known-label builder\<close>

text \<open>The body of the inner loop of \<open>main\<close>: one \<open>append\<close> to the bucket of the
  feature's type.\<close>

definition add_true_label :: "'r MapUnit \<Rightarrow> KnownLabels \<Rightarrow> KnownLabels" where
  "add_true_label feature true_labels =
     (if type feature = POINT then
        true_labels\<lparr>Points := Points true_labels @ [str_lower (label feature)]\<rparr>
      else if type feature = LINE then
        true_labels\<lparr>Lines := Lines true_labels @ [str_lower (label feature)]\<rparr>
      else if type feature = POLYGON then
        true_labels\<lparr>Polygons := Polygons true_labels @ [str_lower (label feature)]\<rparr>
      else
        true_labels\<lparr>Unknown := Unknown true_labels @ [str_lower (label feature)]\<rparr>)"

fun add_legend_labels :: "'r MapUnit list \<Rightarrow> KnownLabels \<Rightarrow> KnownLabels" where
  "add_legend_labels [] true_labels = true_labels"
| "add_legend_labels (feature # rest) true_labels =
     add_legend_labels rest (add_true_label feature true_labels)"

text \<open>\<open>for legend in true_legends.values()\<close>: the legends in the order of the
  dictionary.\<close>

fun add_legends_labels :: "'r MapUnit list list \<Rightarrow> KnownLabels \<Rightarrow> KnownLabels" where
  "add_legends_labels [] true_labels = true_labels"
| "add_legends_labels (legend # rest) true_labels =
     add_legends_labels rest (add_legend_labels legend true_labels)"

definition known_lines :: "string list" where
  "known_lines = [''monocline'', ''syncline'', ''anticline'', ''antiform'', ''synform'']"

text \<open>The lists before they are deduplicated: the scan, then the manual line labels
  appended one by one.\<close>

definition collect_true_labels :: "'r MapUnit list list \<Rightarrow> KnownLabels" where
  "collect_true_labels true_legends =
     (let true_labels = add_legends_labels true_legends
            \<lparr>Points = [], Lines = [], Polygons = [], Unknown = []\<rparr>
      in true_labels\<lparr>Lines := Lines true_labels @ known_lines\<rparr>)"

text \<open>
  \<open>list(set(xs))\<close> keeps one copy of every element in an order that Python does not
  fix; a bucket of the saved dictionary is therefore given as the set of its entries.
\<close>

record unique_labels =
  unique_Points :: "string set"
  unique_Lines :: "string set"
  unique_Polygons :: "string set"
  unique_Unknown :: "string set"

definition gen_known_labels :: "'r MapUnit list list \<Rightarrow> unique_labels" where
  "gen_known_labels true_legends =
     (let true_labels = collect_true_labels true_legends
      in \<lparr>unique_Points = set (Points true_labels), unique_Lines = set (Lines true_labels),
          unique_Polygons = set (Polygons true_labels),
          unique_Unknown = set (Unknown true_labels)\<rparr>)"

text \<open>The features of a type, over all legends.\<close>

definition features_of_type :: "MapUnitType \<Rightarrow> 'r MapUnit list list \<Rightarrow> 'r MapUnit list" where
  "features_of_type t true_legends = filter (\<lambda>feature. type feature = t) (concat true_legends)"

section \<open>update_stepup: the catalog synchronizer\<close>

text \<open>
  The remote catalog is given by what its three calls answer: an exception or a value.
  \<open>retrieve_cog_id\<close> answers the \<open>cog_url\<close>; \<open>legend_items_of\<close> is
  \<open>retrieve_cog_legend_items\<close> followed by \<open>validate_cog_legend_items_response\<close>;
  \<open>requests_get\<close> answers the status code and the content of the response. The local
  directory is the two maps from a map identifier to the content of
  \<open>legends/stepup_{id}.json\<close> and of \<open>images/stepup_{id}.tif\<close>; the legend file holds
  the conversion of the legend items made by \<open>saveStepUpJson\<close>, which is taken to
  succeed and is kept as the items themselves. \<open>calls\<close> lists the remote calls made
  so far.
\<close>

type_synonym ngmdb_id = nat

datatype remote_call = Lookup ngmdb_id | LegendItems string | Download string

record 'i cdr =
  retrieve_cog_id :: "ngmdb_id \<Rightarrow> error + string"
  legend_items_of :: "string \<Rightarrow> error + 'i list"
  requests_get :: "string \<Rightarrow> error + nat \<times> nat list"

record inventory_row =
  proddesc :: ngmdb_id
  label_completed :: string

record 'i sync_state =
  legends :: "ngmdb_id \<rightharpoonup> 'i list"
  images :: "ngmdb_id \<rightharpoonup> nat list"
  bad_ids :: "ngmdb_id list"
  calls :: "remote_call list"

text \<open>How a step of the loop body ends: an exception leaves the loop, \<open>continue\<close>
  goes to the next row, or the body goes on with its next statement.\<close>

datatype 's flow = Raised error 's | Continued 's | Proceed 's

text \<open>\<open>download_ngmdb_tif\<close>: \<open>None\<close> for a status other than 200.\<close>

definition download_ngmdb_tif :: "'i cdr \<Rightarrow> string \<Rightarrow> error + nat list option" where
  "download_ngmdb_tif con url =
     (case requests_get con url of
        Inl e \<Rightarrow> Inl e
      | Inr (status_code, content) \<Rightarrow>
          if status_code \<noteq> 200 then Inr None else Inr (Some content))"

text \<open>\<open>cog_url.split('/')[-1].split('.')[0]\<close>.\<close>

definition cog_id_of :: "string \<Rightarrow> string" where
  "cog_id_of cog_url =
     takeWhile (\<lambda>c. c \<noteq> CHR ''.'') (rev (takeWhile (\<lambda>c. c \<noteq> CHR ''/'') (rev cog_url)))"

text \<open>"Retrieve the legend json if needed": no \<open>try\<close> surrounds the two calls.\<close>

definition retrieve_legend ::
  "'i cdr \<Rightarrow> ngmdb_id \<Rightarrow> string \<Rightarrow> 'i sync_state \<Rightarrow> 'i sync_state flow" where
  "retrieve_legend con i cog_id st =
     (if i \<notin> dom (legends st) then
        (let st = st\<lparr>calls := calls st @ [LegendItems cog_id]\<rparr>
         in case legend_items_of con cog_id of
              Inl e \<Rightarrow> Raised e st
            | Inr legend_items \<Rightarrow>
                if length legend_items = 0 then Continued (st\<lparr>bad_ids := bad_ids st @ [i]\<rparr>)
                else Proceed (st\<lparr>legends := (legends st)(i \<mapsto> legend_items)\<rparr>))
      else Proceed st)"

text \<open>
  "Retrieve image if needed". \<open>open(..., 'wb')\<close> creates the file empty before
  \<open>file.write(img)\<close> runs, and \<open>file.write(None)\<close> raises \<open>TypeError\<close>.
\<close>

definition retrieve_image ::
  "'i cdr \<Rightarrow> ngmdb_id \<Rightarrow> string \<Rightarrow> 'i sync_state \<Rightarrow> 'i sync_state flow" where
  "retrieve_image con i cog_url st =
     (if i \<notin> dom (images st) then
        (let st = st\<lparr>calls := calls st @ [Download cog_url]\<rparr>
         in case download_ngmdb_tif con cog_url of
              Inl e \<Rightarrow> Raised e st
            | Inr img \<Rightarrow>
                (let st = st\<lparr>images := (images st)(i \<mapsto> [])\<rparr>
                 in case img of
                      None \<Rightarrow> Raised TypeError st
                    | Some content \<Rightarrow> Proceed (st\<lparr>images := (images st)(i \<mapsto> content)\<rparr>)))
      else Proceed st)"

text \<open>The body of the loop of \<open>main\<close> for one row of the inventory. \<open>Inl\<close> is an
  exception that leaves \<open>main\<close>, with the state it leaves behind.\<close>

definition process_row ::
  "'i cdr \<Rightarrow> inventory_row \<Rightarrow> 'i sync_state \<Rightarrow> error \<times> 'i sync_state + 'i sync_state" where
  "process_row con row st =
     (let i = proddesc row
      in if label_completed row \<noteq> ''1'' then Inr st
         else if i \<in> dom (legends st) \<and> i \<in> dom (images st) then Inr st
         else
           (let st = st\<lparr>calls := calls st @ [Lookup i]\<rparr>
            in case retrieve_cog_id con i of
                 Inl e \<Rightarrow> Inr (st\<lparr>bad_ids := bad_ids st @ [i]\<rparr>)
               | Inr cog_url \<Rightarrow>
                   (case retrieve_legend con i (cog_id_of cog_url) st of
                      Raised e st \<Rightarrow> Inl (e, st)
                    | Continued st \<Rightarrow> Inr st
                    | Proceed st \<Rightarrow>
                        (case retrieve_image con i cog_url st of
                           Raised e st \<Rightarrow> Inl (e, st)
                         | Continued st \<Rightarrow> Inr st
                         | Proceed st \<Rightarrow> Inr st))))"

fun process_rows ::
  "'i cdr \<Rightarrow> inventory_row list \<Rightarrow> 'i sync_state \<Rightarrow> error \<times> 'i sync_state + 'i sync_state" where
  "process_rows con [] st = Inr st"
| "process_rows con (row # rest) st =
     (case process_row con row st of
        Inl failure \<Rightarrow> Inl failure
      | Inr st' \<Rightarrow> process_rows con rest st')"

text \<open>A run that starts with empty directories and no bad identifiers.\<close>

definition empty_state :: "'i sync_state" where
  "empty_state = \<lparr>legends = Map.empty, images = Map.empty, bad_ids = [], calls = []\<rparr>"

section \<open>Notions used in the statements\<close>

text \<open>The label a unit holds once the abbreviation has replaced an empty label;
  \<open>None\<close> when the label is empty and there is no abbreviation.\<close>

definition held_label :: "'r MapUnit \<Rightarrow> string option" where
  "held_label feature = (if label feature = [] then abbreviation' feature else Some (label feature))"

text \<open>The unit as the classifier leaves it, its type apart.\<close>

definition relabelled :: "'r MapUnit \<Rightarrow> 'r MapUnit" where
  "relabelled feature =
     (case held_label feature of None \<Rightarrow> feature | Some l \<Rightarrow> feature\<lparr>label := l\<rparr>)"

text \<open>An entry equal to the label when case is ignored, and a bucket whose entries
  are all lowercase, as the known-labels file has them.\<close>

definition ci_present :: "string \<Rightarrow> string list \<Rightarrow> bool" where
  "ci_present l bucket = list_ex (\<lambda>entry. str_lower entry = str_lower l) bucket"

definition lowercase_bucket :: "string list \<Rightarrow> bool" where
  "lowercase_bucket bucket = list_all (\<lambda>entry. str_lower entry = entry) bucket"

text \<open>Every identifier has its legend file and its image file, or neither.\<close>

definition pairs_consistent :: "'i sync_state \<Rightarrow> bool" where
  "pairs_consistent st = (dom (legends st) = dom (images st))"

text \<open>The state a run leaves behind, whether it returned or raised.\<close>

definition final_state :: "error \<times> 'i sync_state + 'i sync_state \<Rightarrow> 'i sync_state" where
  "final_state r = (case r of Inl (e, st) \<Rightarrow> st | Inr st \<Rightarrow> st)"

text \<open>Concrete inventories and catalogs: two completed rows; a catalog that answers
  every call; one whose image server answers 404; one whose legend call raises; one
  whose image request raises.\<close>

definition two_rows :: "inventory_row list" where
  "two_rows = [\<lparr>proddesc = 101, label_completed = ''1''\<rparr>, \<lparr>proddesc = 102, label_completed = ''1''\<rparr>]"

definition cdr_ok :: "unit cdr" where
  "cdr_ok = \<lparr>retrieve_cog_id = (\<lambda>i. Inr ''https://s3/cogs/abc.cog.tif''),
     legend_items_of = (\<lambda>c. Inr [()]),
     requests_get = (\<lambda>u. Inr (200, [73, 73, 42]))\<rparr>"

definition cdr_image_404 :: "unit cdr" where
  "cdr_image_404 = cdr_ok\<lparr>requests_get := (\<lambda>u. Inr (404, []))\<rparr>"

definition cdr_legend_raises :: "unit cdr" where
  "cdr_legend_raises = cdr_ok\<lparr>legend_items_of := (\<lambda>c. Inl RemoteError)\<rparr>"

definition cdr_image_raises :: "unit cdr" where
  "cdr_image_raises = cdr_ok\<lparr>requests_get := (\<lambda>u. Inl RemoteError)\<rparr>"

text \<open>A dictionary in which a label sits in two buckets, a unit whose empty label
  falls back to its abbreviation, and a unit with neither label nor abbreviation text.\<close>

definition both_buckets :: KnownLabels where
  "both_buckets = \<lparr>Points = [''spring''], Lines = [''spring'', ''fault''],
     Polygons = [''fault'', ''qal''], Unknown = []\<rparr>"

definition abbreviated_unit :: "unit MapUnit" where
  "abbreviated_unit = \<lparr>label = [], abbreviation' = Some ''Normal Fault'', type = POINT,
     label_bbox = (), description = None\<rparr>"

definition blank_unit :: "unit MapUnit" where
  "blank_unit = \<lparr>label = [], abbreviation' = Some [], type = UNKNOWN, label_bbox = (),
     description = None\<rparr>"

section \<open>Facts about strings and the keyword scan\<close>

lemma str_in_sublist: "str_in needle hay = sublist needle hay"
  by (induction hay) (simp_all add: sublist_Cons_right)

lemma scan_lines_None: "scan_lines ls lbl = None \<longleftrightarrow> (\<forall>line\<in>set ls. \<not> sublist line lbl)"
  by (induction ls) (simp_all add: str_in_sublist)

lemma scan_lines_Some:
  "scan_lines ls lbl = Some line \<Longrightarrow>
     \<exists>before after. ls = before @ line # after \<and> sublist line lbl \<and>
        (\<forall>earlier\<in>set before. \<not> sublist earlier lbl)"
proof (induction ls)
  case Nil
  then show ?case by simp
next
  case (Cons a ls)
  show ?case
  proof (cases "str_in a lbl")
    case True
    with Cons.prems have "a = line" by simp
    with True have "a # ls = [] @ line # ls \<and> sublist line lbl \<and> (\<forall>earlier\<in>set []. \<not> sublist earlier lbl)"
      by (simp add: str_in_sublist)
    then show ?thesis by blast
  next
    case False
    with Cons.prems have "scan_lines ls lbl = Some line" by simp
    from Cons.IH[OF this] obtain before after where
      h: "ls = before @ line # after" "sublist line lbl" "\<forall>earlier\<in>set before. \<not> sublist earlier lbl"
      by blast
    from h False have "a # ls = (a # before) @ line # after \<and> sublist line lbl \<and>
        (\<forall>earlier\<in>set (a # before). \<not> sublist earlier lbl)"
      by (simp add: str_in_sublist)
    then show ?thesis by blast
  qed
qed

lemma char_lower_space: "char_lower (CHR '' '') = CHR '' ''"
  by code_simp

lemma str_lower_padding:
  "str_lower (replicate m (CHR '' '') @ s @ replicate n (CHR '' '')) =
     replicate m (CHR '' '') @ str_lower s @ replicate n (CHR '' '')"
  by (simp add: str_lower_def char_lower_space)

section \<open>The branches of the classifier\<close>

lemma classify_exact_point:
  assumes "held_label f = Some l" "str_lower l \<in> set (Points d)"
  shows "classify_feature d f (out, stat) =
     Inr (out @ [f\<lparr>label := l, type := POINT\<rparr>], stat\<lparr>stat_Points := stat_Points stat @ [str_lower l]\<rparr>)"
  using assms by (simp add: classify_feature_def held_label_def)

lemma classify_exact_line:
  assumes "held_label f = Some l" "str_lower l \<notin> set (Points d)" "str_lower l \<in> set (Lines d)"
  shows "classify_feature d f (out, stat) =
     Inr (out @ [f\<lparr>label := l, type := LINE\<rparr>], stat\<lparr>stat_Lines := stat_Lines stat @ [str_lower l]\<rparr>)"
  using assms by (simp add: classify_feature_def held_label_def)

lemma classify_exact_polygon:
  assumes "held_label f = Some l" "str_lower l \<notin> set (Points d)" "str_lower l \<notin> set (Lines d)"
    "str_lower l \<in> set (Polygons d)"
  shows "classify_feature d f (out, stat) =
     Inr (out @ [f\<lparr>label := l, type := POLYGON\<rparr>], stat\<lparr>stat_Polygons := stat_Polygons stat @ [str_lower l]\<rparr>)"
  using assms by (simp add: classify_feature_def held_label_def)

lemma classify_short:
  assumes "held_label f = Some l" "str_lower l \<notin> set (Points d)" "str_lower l \<notin> set (Lines d)"
    "str_lower l \<notin> set (Polygons d)" "length l < 5"
  shows "classify_feature d f (out, stat) =
     Inr (out @ [f\<lparr>label := l, type := POLYGON\<rparr>],
          stat\<lparr>stat_Likely_Polygons := stat_Likely_Polygons stat @ [str_lower l]\<rparr>)"
  using assms by (simp add: classify_feature_def held_label_def)

lemma classify_scan:
  assumes "held_label f = Some l" "str_lower l \<notin> set (Points d)" "str_lower l \<notin> set (Lines d)"
    "str_lower l \<notin> set (Polygons d)" "5 \<le> length l"
  shows "classify_feature d f (out, stat) =
     (case scan_lines (Lines d) (str_lower l) of
        Some line \<Rightarrow> Inr (out @ [f\<lparr>label := l, type := LINE\<rparr>],
                       stat\<lparr>stat_Likely_Lines := stat_Likely_Lines stat @ [line]\<rparr>)
      | None \<Rightarrow> Inr (out @ [f\<lparr>label := l, type := UNKNOWN\<rparr>],
                       stat\<lparr>stat_Unknown := stat_Unknown stat @ [str_lower l]\<rparr>))"
  using assms by (simp add: classify_feature_def held_label_def split: option.splits)

lemma classify_no_label:
  "held_label f = None \<Longrightarrow> classify_feature d f st = Inl AttributeError"
  by (cases st) (simp add: classify_feature_def held_label_def)

lemma classify_appends:
  assumes "held_label f = Some l"
  shows "\<exists>t stat'. classify_feature d f (out, stat) = Inr (out @ [f\<lparr>label := l, type := t\<rparr>], stat')"
proof -
  consider (point) "str_lower l \<in> set (Points d)"
    | (line) "str_lower l \<notin> set (Points d)" "str_lower l \<in> set (Lines d)"
    | (polygon) "str_lower l \<notin> set (Points d)" "str_lower l \<notin> set (Lines d)"
        "str_lower l \<in> set (Polygons d)"
    | (short) "str_lower l \<notin> set (Points d)" "str_lower l \<notin> set (Lines d)"
        "str_lower l \<notin> set (Polygons d)" "length l < 5"
    | (scan) "str_lower l \<notin> set (Points d)" "str_lower l \<notin> set (Lines d)"
        "str_lower l \<notin> set (Polygons d)" "5 \<le> length l"
    by linarith
  then show ?thesis
  proof cases
    case point
    from classify_exact_point[OF assms this] show ?thesis by blast
  next
    case line
    from classify_exact_line[OF assms this] show ?thesis by blast
  next
    case polygon
    from classify_exact_polygon[OF assms this] show ?thesis by blast
  next
    case short
    from classify_short[OF assms this] show ?thesis by blast
  next
    case scan
    from classify_scan[OF assms this] show ?thesis
      by (cases "scan_lines (Lines d) (str_lower l)") auto
  qed
qed

lemma ci_present_lowercase:
  "lowercase_bucket bucket \<Longrightarrow> ci_present l bucket \<longleftrightarrow> str_lower l \<in> set bucket"
  by (auto simp: lowercase_bucket_def ci_present_def list_all_iff list_ex_iff)

lemma classify_feature_prior_type:
  "classify_feature d (f\<lparr>type := t\<rparr>) st = classify_feature d f st"
  by (cases st) (simp add: classify_feature_def Let_def split: option.splits)

lemma classify_features_appends:
  "\<forall>f\<in>set fs. held_label f \<noteq> None \<Longrightarrow>
   \<exists>new stat'. classify_features d fs (out, stat) = Inr (out @ new, stat') \<and>
      map (\<lambda>u. u\<lparr>type := UNKNOWN\<rparr>) new = map (\<lambda>f. (relabelled f)\<lparr>type := UNKNOWN\<rparr>) fs"
proof (induction fs arbitrary: out stat)
  case Nil
  then show ?case by simp
next
  case (Cons f fs)
  from Cons.prems obtain l where l: "held_label f = Some l" by auto
  from classify_appends[OF l, of d out stat] obtain t stat1 where
    step: "classify_feature d f (out, stat) = Inr (out @ [f\<lparr>label := l, type := t\<rparr>], stat1)"
    by blast
  from Cons.prems have "\<forall>f\<in>set fs. held_label f \<noteq> None" by simp
  from Cons.IH[OF this, of "out @ [f\<lparr>label := l, type := t\<rparr>]" stat1] obtain new stat' where
    rest: "classify_features d fs (out @ [f\<lparr>label := l, type := t\<rparr>], stat1) =
             Inr ((out @ [f\<lparr>label := l, type := t\<rparr>]) @ new, stat')"
      "map (\<lambda>u. u\<lparr>type := UNKNOWN\<rparr>) new = map (\<lambda>f. (relabelled f)\<lparr>type := UNKNOWN\<rparr>) fs"
    by blast
  have "classify_features d (f # fs) (out, stat) = Inr (out @ (f\<lparr>label := l, type := t\<rparr> # new), stat')"
    using step rest(1) by simp
  moreover have "map (\<lambda>u. u\<lparr>type := UNKNOWN\<rparr>) (f\<lparr>label := l, type := t\<rparr> # new) =
      map (\<lambda>f. (relabelled f)\<lparr>type := UNKNOWN\<rparr>) (f # fs)"
    using rest(2) l by (simp add: relabelled_def)
  ultimately show ?case by blast
qed

lemma classify_features_raises:
  "held_label f = None \<Longrightarrow> f \<in> set fs \<Longrightarrow> \<exists>e. classify_features d fs st = Inl e"
proof (induction fs arbitrary: st)
  case Nil
  then show ?case by simp
next
  case (Cons a fs)
  show ?case
  proof (cases "classify_feature d a st")
    case (Inl e)
    then show ?thesis by simp
  next
    case (Inr st')
    with Cons.prems have "a \<noteq> f" by (auto simp: classify_no_label)
    with Cons.prems have "f \<in> set fs" by simp
    from Cons.IH[OF Cons.prems(1) this, of st'] Inr show ?thesis by simp
  qed
qed

section \<open>The builder and the document writer, step by step\<close>

lemma add_true_label_buckets:
  "Points (add_true_label f acc) = Points acc @ map (\<lambda>f. str_lower (label f)) (filter (\<lambda>f. type f = POINT) [f])"
  "Lines (add_true_label f acc) = Lines acc @ map (\<lambda>f. str_lower (label f)) (filter (\<lambda>f. type f = LINE) [f])"
  "Polygons (add_true_label f acc) = Polygons acc @ map (\<lambda>f. str_lower (label f)) (filter (\<lambda>f. type f = POLYGON) [f])"
  "Unknown (add_true_label f acc) = Unknown acc @ map (\<lambda>f. str_lower (label f)) (filter (\<lambda>f. type f = UNKNOWN) [f])"
  by (cases "type f"; simp add: add_true_label_def)+

lemma add_legend_labels_buckets:
  "Points (add_legend_labels fs acc) = Points acc @ map (\<lambda>f. str_lower (label f)) (filter (\<lambda>f. type f = POINT) fs)"
  "Lines (add_legend_labels fs acc) = Lines acc @ map (\<lambda>f. str_lower (label f)) (filter (\<lambda>f. type f = LINE) fs)"
  "Polygons (add_legend_labels fs acc) = Polygons acc @ map (\<lambda>f. str_lower (label f)) (filter (\<lambda>f. type f = POLYGON) fs)"
  "Unknown (add_legend_labels fs acc) = Unknown acc @ map (\<lambda>f. str_lower (label f)) (filter (\<lambda>f. type f = UNKNOWN) fs)"
  by (induction fs arbitrary: acc; simp add: add_true_label_buckets)+

lemma add_legends_labels_buckets:
  "Points (add_legends_labels ls acc) = Points acc @ map (\<lambda>f. str_lower (label f)) (features_of_type POINT ls)"
  "Lines (add_legends_labels ls acc) = Lines acc @ map (\<lambda>f. str_lower (label f)) (features_of_type LINE ls)"
  "Polygons (add_legends_labels ls acc) = Polygons acc @ map (\<lambda>f. str_lower (label f)) (features_of_type POLYGON ls)"
  "Unknown (add_legends_labels ls acc) = Unknown acc @ map (\<lambda>f. str_lower (label f)) (features_of_type UNKNOWN ls)"
  by (induction ls arbitrary: acc; simp add: add_legend_labels_buckets features_of_type_def)+

lemma save_map_unit_spec:
  "save_map_unit to_str u (written, shps) =
     (written @ [u\<lparr>label := replace_spaces (label u)\<rparr>], shps @ spec_shapes to_str u)"
  by (simp add: save_map_unit_def spec_shapes_def spec_label_def rectangle_def Let_def
      split: option.splits)

lemma save_map_units_spec:
  "save_map_units to_str fs (written, shps) =
     (written @ map (\<lambda>u. u\<lparr>label := replace_spaces (label u)\<rparr>) fs,
      shps @ concat (map (spec_shapes to_str) fs))"
  by (induction fs arbitrary: written shps) (simp_all add: save_map_unit_spec)

section \<open>One row of the inventory\<close>

lemma retrieve_legend_cases:
  "retrieve_legend con i cog st = Proceed st' \<Longrightarrow>
     i \<in> dom (legends st') \<and> images st' = images st \<and>
     dom (legends st') = insert i (dom (legends st))"
  by (auto simp: retrieve_legend_def Let_def split: if_splits sum.splits)

lemma retrieve_legend_continued:
  "retrieve_legend con i cog st = Continued st' \<Longrightarrow>
     legends st' = legends st \<and> images st' = images st"
  by (auto simp: retrieve_legend_def Let_def split: if_splits sum.splits)

lemma retrieve_image_cases:
  "retrieve_image con i url st = Proceed st' \<Longrightarrow>
     legends st' = legends st \<and> dom (images st') = insert i (dom (images st))"
  by (auto simp: retrieve_image_def Let_def split: if_splits sum.splits option.splits)

lemma retrieve_image_never_continues:
  "retrieve_image con i url st \<noteq> Continued st'"
  by (auto simp: retrieve_image_def Let_def split: if_splits sum.splits option.splits)

lemma process_row_skip:
  "label_completed row \<noteq> ''1'' \<or>
     (proddesc row \<in> dom (legends st) \<and> proddesc row \<in> dom (images st)) \<Longrightarrow>
   process_row con row st = Inr st"
  by (cases "label_completed row \<noteq> ''1''") (simp_all add: process_row_def Let_def)

lemma process_row_work:
  "\<not> (label_completed row \<noteq> ''1'' \<or>
     (proddesc row \<in> dom (legends st) \<and> proddesc row \<in> dom (images st))) \<Longrightarrow>
   process_row con row st =
     (case retrieve_cog_id con (proddesc row) of
        Inl e \<Rightarrow> Inr (st\<lparr>calls := calls st @ [Lookup (proddesc row)],
                       bad_ids := bad_ids st @ [proddesc row]\<rparr>)
      | Inr cog_url \<Rightarrow>
          (case retrieve_legend con (proddesc row) (cog_id_of cog_url)
                  (st\<lparr>calls := calls st @ [Lookup (proddesc row)]\<rparr>) of
             Raised e st \<Rightarrow> Inl (e, st)
           | Continued st \<Rightarrow> Inr st
           | Proceed st \<Rightarrow>
               (case retrieve_image con (proddesc row) cog_url st of
                  Raised e st \<Rightarrow> Inl (e, st)
                | Continued st \<Rightarrow> Inr st
                | Proceed st \<Rightarrow> Inr st)))"
  by (cases "proddesc row \<in> dom (legends st)")
    (simp_all add: process_row_def Let_def split: sum.split)

lemma process_row_keeps_pairs:
  assumes "process_row con row st = Inr st'" "pairs_consistent st"
  shows "pairs_consistent st'"
proof (cases "label_completed row \<noteq> ''1'' \<or>
    (proddesc row \<in> dom (legends st) \<and> proddesc row \<in> dom (images st))")
  case True
  from process_row_skip[OF True, of con] assms(1) have "st' = st" by simp
  with assms(2) show ?thesis by simp
next
  case False
  note w = process_row_work[OF False, of con]
  let ?i = "proddesc row"
  let ?st1 = "st\<lparr>calls := calls st @ [Lookup ?i]\<rparr>"
  show ?thesis
  proof (cases "retrieve_cog_id con ?i")
    case (Inl e)
    with w assms(1) have "st' = st\<lparr>calls := calls st @ [Lookup ?i], bad_ids := bad_ids st @ [?i]\<rparr>"
      by simp
    with assms(2) show ?thesis by (simp add: pairs_consistent_def)
  next
    case (Inr cog_url)
    show ?thesis
    proof (cases "retrieve_legend con ?i (cog_id_of cog_url) ?st1")
      case (Raised e st2)
      with w Inr assms(1) show ?thesis by simp
    next
      case (Continued st2)
      with w Inr assms(1) have "st' = st2" by simp
      with retrieve_legend_continued[OF Continued] assms(2) show ?thesis
        by (simp add: pairs_consistent_def)
    next
      case (Proceed st2)
      show ?thesis
      proof (cases "retrieve_image con ?i cog_url st2")
        case (Raised e st3)
        with w Inr Proceed assms(1) show ?thesis by simp
      next
        case (Continued st3)
        then show ?thesis by (simp add: retrieve_image_never_continues)
      next
        case p: (Proceed st3)
        with w Inr Proceed assms(1) have "st' = st3" by simp
        with retrieve_legend_cases[OF Proceed] retrieve_image_cases[OF p] assms(2)
        show ?thesis by (simp add: pairs_consistent_def)
      qed
    qed
  qed
qed

lemma process_rows_keeps_pairs:
  "process_rows con rows st = Inr st' \<Longrightarrow> pairs_consistent st \<Longrightarrow> pairs_consistent st'"
proof (induction rows arbitrary: st)
  case Nil
  then show ?case by simp
next
  case (Cons row rows)
  from Cons.prems(1) obtain st1 where
    s: "process_row con row st = Inr st1" "process_rows con rows st1 = Inr st'"
    by (auto split: sum.splits)
  from process_row_keeps_pairs[OF s(1) Cons.prems(2)] have "pairs_consistent st1" .
  from Cons.IH[OF s(2) this] show ?case .
qed

section \<open>The claims\<close>

subsection \<open>C1: the scenario of the specification\<close>

text \<open>
  C1, as the code has it. With the dictionary Points = spring, Lines = fault,
  Polygons = qal, the five units labelled Spring, Normal Fault, Qal, Xyz and AB get
  the types Point, Line, Polygon, Polygon and Polygon: Xyz has three characters, so
  the short-label rule makes it a Polygon before the keyword scan is reached.
\<close>

theorem scenario_assigned_types:
  "assigned_types scenario_labels scenario_units = Inr [POINT, LINE, POLYGON, POLYGON, POLYGON]"
  by code_simp

text \<open>
  C1, as it is stated, fails: the list of types is not Point, Line, Polygon, Unknown,
  Polygon, because the fourth unit (Xyz) is not left Unknown.
\<close>

theorem scenario_xyz_not_unknown:
  "assigned_types scenario_labels scenario_units \<noteq> Inr [POINT, LINE, POLYGON, UNKNOWN, POLYGON]"
  by code_simp

subsection \<open>C2: exact matches and the order of the buckets\<close>

text \<open>
  C2. Let \<open>l\<close> be the label the unit holds. If the lowercased label is an entry of
  Points, the unit becomes a Point and the label is counted under Points; if it is not
  in Points but in Lines, a Line; if it is in neither but in Polygons, a Polygon. So a
  label that sits in several buckets takes the first one in the order Points, Lines,
  Polygons, whatever else the dictionary holds. For a bucket of lowercase entries, as
  the known-labels file has them, being present when case is ignored is the same as the
  lowercased label being an entry.
\<close>

theorem exact_match_first_bucket:
  "held_label f = Some l \<Longrightarrow>
   (str_lower l \<in> set (Points d) \<longrightarrow>
      classify_feature d f (out, stat) =
        Inr (out @ [f\<lparr>label := l, type := POINT\<rparr>],
             stat\<lparr>stat_Points := stat_Points stat @ [str_lower l]\<rparr>)) \<and>
   (str_lower l \<notin> set (Points d) \<and> str_lower l \<in> set (Lines d) \<longrightarrow>
      classify_feature d f (out, stat) =
        Inr (out @ [f\<lparr>label := l, type := LINE\<rparr>],
             stat\<lparr>stat_Lines := stat_Lines stat @ [str_lower l]\<rparr>)) \<and>
   (str_lower l \<notin> set (Points d) \<and> str_lower l \<notin> set (Lines d) \<and>
    str_lower l \<in> set (Polygons d) \<longrightarrow>
      classify_feature d f (out, stat) =
        Inr (out @ [f\<lparr>label := l, type := POLYGON\<rparr>],
             stat\<lparr>stat_Polygons := stat_Polygons stat @ [str_lower l]\<rparr>)) \<and>
   (lowercase_bucket (Points d) \<longrightarrow>
      ci_present l (Points d) = (str_lower l \<in> set (Points d))) \<and>
   (lowercase_bucket (Lines d) \<longrightarrow>
      ci_present l (Lines d) = (str_lower l \<in> set (Lines d))) \<and>
   (lowercase_bucket (Polygons d) \<longrightarrow>
      ci_present l (Polygons d) = (str_lower l \<in> set (Polygons d)))"
  by (simp add: classify_exact_point classify_exact_line classify_exact_polygon
      ci_present_lowercase)

text \<open>Spring is in Points and Lines and becomes a Point; FAULT is in Lines and
  Polygons and becomes a Line; Qal is in Polygons alone.\<close>

theorem exact_match_first_bucket_witness:
  "classify_feature both_buckets (unit_of_label ''Spring'') ([], empty_stat) =
     Inr ([(unit_of_label ''Spring'')\<lparr>label := ''Spring'', type := POINT\<rparr>],
          empty_stat\<lparr>stat_Points := [''spring'']\<rparr>) \<and>
   classify_feature both_buckets (unit_of_label ''FAULT'') ([], empty_stat) =
     Inr ([(unit_of_label ''FAULT'')\<lparr>label := ''FAULT'', type := LINE\<rparr>],
          empty_stat\<lparr>stat_Lines := [''fault'']\<rparr>) \<and>
   classify_feature both_buckets (unit_of_label ''Qal'') ([], empty_stat) =
     Inr ([(unit_of_label ''Qal'')\<lparr>label := ''Qal'', type := POLYGON\<rparr>],
          empty_stat\<lparr>stat_Polygons := [''qal'']\<rparr>) \<and>
   ci_present ''Spring'' (Points both_buckets)"
proof -
  have h1: "held_label (unit_of_label ''Spring'') = Some ''Spring''" by code_simp
  have h2: "held_label (unit_of_label ''FAULT'') = Some ''FAULT''" by code_simp
  have h3: "held_label (unit_of_label ''Qal'') = Some ''Qal''" by code_simp
  have l1: "str_lower ''Spring'' = ''spring''" by code_simp
  have l2: "str_lower ''FAULT'' = ''fault''" by code_simp
  have l3: "str_lower ''Qal'' = ''qal''" by code_simp
  have b: "lowercase_bucket (Points both_buckets)" by code_simp
  have s: "stat_Points empty_stat = []" "stat_Lines empty_stat = []" "stat_Polygons empty_stat = []"
    by (simp_all add: empty_stat_def)
  have d: "Points both_buckets = [''spring'']" "Lines both_buckets = [''spring'', ''fault'']"
    "Polygons both_buckets = [''fault'', ''qal'']"
    by (simp_all add: both_buckets_def)
  from exact_match_first_bucket[OF h1, of both_buckets "[]" empty_stat]
    exact_match_first_bucket[OF h2, of both_buckets "[]" empty_stat]
    exact_match_first_bucket[OF h3, of both_buckets "[]" empty_stat]
  show ?thesis
    unfolding l1 l2 l3 d using b s by (simp add: d)
qed

subsection \<open>C3: labels that match no bucket exactly\<close>

text \<open>
  C3. Let \<open>l\<close> be the label the unit holds, its lowercase form in none of the three
  buckets. If \<open>l\<close> has fewer than 5 characters the unit becomes a Polygon, counted under
  Likely_Polygons, and the Lines bucket is not scanned. If \<open>l\<close> has at least 5 characters
  and some entry of Lines occurs in the lowercased label, the unit becomes a Line and
  the entry recorded is the first one of the list that occurs in it. If \<open>l\<close> has at
  least 5 characters and no entry of Lines occurs in it, the unit is Unknown.
\<close>

theorem fallback_cascade:
  "held_label f = Some l \<Longrightarrow>
   str_lower l \<notin> set (Points d) \<Longrightarrow> str_lower l \<notin> set (Lines d) \<Longrightarrow>
   str_lower l \<notin> set (Polygons d) \<Longrightarrow>
   (length l < 5 \<longrightarrow>
      classify_feature d f (out, stat) =
        Inr (out @ [f\<lparr>label := l, type := POLYGON\<rparr>],
             stat\<lparr>stat_Likely_Polygons := stat_Likely_Polygons stat @ [str_lower l]\<rparr>)) \<and>
   (5 \<le> length l \<and> (\<exists>line\<in>set (Lines d). sublist line (str_lower l)) \<longrightarrow>
      (\<exists>before line after.
         Lines d = before @ line # after \<and> sublist line (str_lower l) \<and>
         (\<forall>earlier\<in>set before. \<not> sublist earlier (str_lower l)) \<and>
         classify_feature d f (out, stat) =
           Inr (out @ [f\<lparr>label := l, type := LINE\<rparr>],
                stat\<lparr>stat_Likely_Lines := stat_Likely_Lines stat @ [line]\<rparr>))) \<and>
   (5 \<le> length l \<and> (\<forall>line\<in>set (Lines d). \<not> sublist line (str_lower l)) \<longrightarrow>
      classify_feature d f (out, stat) =
        Inr (out @ [f\<lparr>label := l, type := UNKNOWN\<rparr>],
             stat\<lparr>stat_Unknown := stat_Unknown stat @ [str_lower l]\<rparr>))"
proof (intro conjI impI)
  assume a: "held_label f = Some l" "str_lower l \<notin> set (Points d)"
    "str_lower l \<notin> set (Lines d)" "str_lower l \<notin> set (Polygons d)"
  {
    assume "length l < 5"
    with a show "classify_feature d f (out, stat) =
        Inr (out @ [f\<lparr>label := l, type := POLYGON\<rparr>],
             stat\<lparr>stat_Likely_Polygons := stat_Likely_Polygons stat @ [str_lower l]\<rparr>)"
      by (rule classify_short)
  next
    assume b: "5 \<le> length l \<and> (\<exists>line\<in>set (Lines d). sublist line (str_lower l))"
    then have "scan_lines (Lines d) (str_lower l) \<noteq> None"
      by (simp add: scan_lines_None)
    then obtain line where s: "scan_lines (Lines d) (str_lower l) = Some line" by blast
    from classify_scan[OF a, of out stat] b s
    have c: "classify_feature d f (out, stat) =
           Inr (out @ [f\<lparr>label := l, type := LINE\<rparr>],
                stat\<lparr>stat_Likely_Lines := stat_Likely_Lines stat @ [line]\<rparr>)"
      by simp
    from scan_lines_Some[OF s] c
    show "\<exists>before line after.
         Lines d = before @ line # after \<and> sublist line (str_lower l) \<and>
         (\<forall>earlier\<in>set before. \<not> sublist earlier (str_lower l)) \<and>
         classify_feature d f (out, stat) =
           Inr (out @ [f\<lparr>label := l, type := LINE\<rparr>],
                stat\<lparr>stat_Likely_Lines := stat_Likely_Lines stat @ [line]\<rparr>)"
      by blast
  next
    assume b: "5 \<le> length l \<and> (\<forall>line\<in>set (Lines d). \<not> sublist line (str_lower l))"
    then have "scan_lines (Lines d) (str_lower l) = None"
      by (simp add: scan_lines_None)
    with classify_scan[OF a, of out stat] b
    show "classify_feature d f (out, stat) =
        Inr (out @ [f\<lparr>label := l, type := UNKNOWN\<rparr>],
             stat\<lparr>stat_Unknown := stat_Unknown stat @ [str_lower l]\<rparr>)"
      by simp
  }
qed

text \<open>Xyz is short, Normal_Fault_Trace contains fault, Gravel pit contains no
  keyword.\<close>

theorem fallback_cascade_witness:
  "classify_feature scenario_labels (unit_of_label ''Xyz'') ([], empty_stat) =
     Inr ([(unit_of_label ''Xyz'')\<lparr>label := ''Xyz'', type := POLYGON\<rparr>],
          empty_stat\<lparr>stat_Likely_Polygons := [''xyz'']\<rparr>) \<and>
   classify_feature scenario_labels (unit_of_label ''Normal_Fault_Trace'') ([], empty_stat) =
     Inr ([(unit_of_label ''Normal_Fault_Trace'')\<lparr>label := ''Normal_Fault_Trace'', type := LINE\<rparr>],
          empty_stat\<lparr>stat_Likely_Lines := [''fault'']\<rparr>) \<and>
   classify_feature scenario_labels (unit_of_label ''Gravel pit'') ([], empty_stat) =
     Inr ([(unit_of_label ''Gravel pit'')\<lparr>label := ''Gravel pit'', type := UNKNOWN\<rparr>],
          empty_stat\<lparr>stat_Unknown := [''gravel pit'']\<rparr>)"
proof -
  have d: "Points scenario_labels = [''spring'']" "Lines scenario_labels = [''fault'']"
    "Polygons scenario_labels = [''qal'']"
    by (simp_all add: scenario_labels_def)
  have s: "stat_Likely_Polygons empty_stat = []" "stat_Likely_Lines empty_stat = []"
    "stat_Unknown empty_stat = []"
    by (simp_all add: empty_stat_def)
  have h1: "held_label (unit_of_label ''Xyz'') = Some ''Xyz''" by code_simp
  have l1: "str_lower ''Xyz'' = ''xyz''" by code_simp
  have n1: "str_lower ''Xyz'' \<notin> set (Points scenario_labels)"
    "str_lower ''Xyz'' \<notin> set (Lines scenario_labels)"
    "str_lower ''Xyz'' \<notin> set (Polygons scenario_labels)"
    unfolding l1 d by simp_all
  have h2: "held_label (unit_of_label ''Normal_Fault_Trace'') = Some ''Normal_Fault_Trace''"
    by code_simp
  have l2: "str_lower ''Normal_Fault_Trace'' = ''normal_fault_trace''" by code_simp
  have n2: "str_lower ''Normal_Fault_Trace'' \<notin> set (Points scenario_labels)"
    "str_lower ''Normal_Fault_Trace'' \<notin> set (Lines scenario_labels)"
    "str_lower ''Normal_Fault_Trace'' \<notin> set (Polygons scenario_labels)"
    unfolding l2 d by simp_all
  have m2: "sublist ''fault'' ''normal_fault_trace''"
    unfolding str_in_sublist[symmetric] by code_simp
  have h3: "held_label (unit_of_label ''Gravel pit'') = Some ''Gravel pit''" by code_simp
  have l3: "str_lower ''Gravel pit'' = ''gravel pit''" by code_simp
  have n3: "str_lower ''Gravel pit'' \<notin> set (Points scenario_labels)"
    "str_lower ''Gravel pit'' \<notin> set (Lines scenario_labels)"
    "str_lower ''Gravel pit'' \<notin> set (Polygons scenario_labels)"
    unfolding l3 d by simp_all
  have m3: "\<not> sublist ''fault'' ''gravel pit''"
    unfolding str_in_sublist[symmetric] by code_simp
  have c1: "classify_feature scenario_labels (unit_of_label ''Xyz'') ([], empty_stat) =
     Inr ([(unit_of_label ''Xyz'')\<lparr>label := ''Xyz'', type := POLYGON\<rparr>],
          empty_stat\<lparr>stat_Likely_Polygons := [''xyz'']\<rparr>)"
    using fallback_cascade[OF h1 n1, of "[]" empty_stat] unfolding l1 by (simp add: s)
  from fallback_cascade[OF h2 n2, of "[]" empty_stat] m2
  obtain before line after where
    w: "[''fault''] = before @ line # after"
       "classify_feature scenario_labels (unit_of_label ''Normal_Fault_Trace'') ([], empty_stat) =
          Inr ([] @ [(unit_of_label ''Normal_Fault_Trace'')\<lparr>label := ''Normal_Fault_Trace'', type := LINE\<rparr>],
          empty_stat\<lparr>stat_Likely_Lines := stat_Likely_Lines empty_stat @ [line]\<rparr>)"
    unfolding l2 d by auto
  from w(1) have "line = ''fault''" by (cases before) simp_all
  with w(2) have c2: "classify_feature scenario_labels (unit_of_label ''Normal_Fault_Trace'') ([], empty_stat) =
     Inr ([(unit_of_label ''Normal_Fault_Trace'')\<lparr>label := ''Normal_Fault_Trace'', type := LINE\<rparr>],
          empty_stat\<lparr>stat_Likely_Lines := [''fault'']\<rparr>)"
    by (simp add: s)
  have c3: "classify_feature scenario_labels (unit_of_label ''Gravel pit'') ([], empty_stat) =
     Inr ([(unit_of_label ''Gravel pit'')\<lparr>label := ''Gravel pit'', type := UNKNOWN\<rparr>],
          empty_stat\<lparr>stat_Unknown := [''gravel pit'']\<rparr>)"
    using fallback_cascade[OF h3 n3, of "[]" empty_stat] m3 unfolding l3 d by (simp add: s)
  from c1 c2 c3 show ?thesis by blast
qed

subsection \<open>C4: remote failures while a row is processed\<close>

text \<open>
  C4 at two inputs. On an inventory of two completed rows and empty directories, when
  the image server answers 404 for the first row, \<open>download_ngmdb_tif\<close> returns
  \<open>None\<close> and writing it raises \<open>TypeError\<close>: the run ends there, no identifier is in
  \<open>bad_ids\<close>, the second row is never looked up and the image file is left empty. When
  the legend-item call raises for the first row the run ends there as well, again with
  no identifier in \<open>bad_ids\<close>.
\<close>

theorem image_404_aborts_batch:
  "process_rows cdr_image_404 two_rows empty_state =
     Inl (TypeError,
          \<lparr>legends = [101 \<mapsto> [()]], images = [101 \<mapsto> []], bad_ids = [],
           calls = [Lookup 101, LegendItems ''abc'', Download ''https://s3/cogs/abc.cog.tif'']\<rparr>) \<and>
   process_rows cdr_legend_raises two_rows empty_state =
     Inl (RemoteError,
          \<lparr>legends = Map.empty, images = Map.empty, bad_ids = [],
           calls = [Lookup 101, LegendItems ''abc'']\<rparr>)"
  by (simp add: two_rows_def cdr_image_404_def cdr_legend_raises_def cdr_ok_def empty_state_def
     process_row_def retrieve_legend_def retrieve_image_def download_ngmdb_tif_def cog_id_of_def)

subsection \<open>C5: the legend and image files of one identifier\<close>

text \<open>
  C5, as the code has it. When the loop over the inventory ends without an exception and
  it started on directories in which every identifier has both files or neither, every
  identifier again has both files or neither. A row whose two files both exist is
  skipped: the state, with its list of remote calls, is returned as it was.
\<close>

theorem completed_run_keeps_pairs:
  "(process_rows con rows st = Inr st' \<and> pairs_consistent st \<longrightarrow> pairs_consistent st') \<and>
   (proddesc row \<in> dom (legends st) \<and> proddesc row \<in> dom (images st) \<longrightarrow>
      process_row con row st = Inr st)"
  using process_rows_keeps_pairs process_row_skip by blast

text \<open>A run over two rows against a catalog that answers every call, and the first
  row processed again afterwards.\<close>

theorem completed_run_keeps_pairs_witness:
  "pairs_consistent (empty_state :: unit sync_state) \<and>
   (\<exists>st'. process_rows cdr_ok two_rows empty_state = Inr st' \<and> pairs_consistent st' \<and>
      dom (legends st') = {101, 102} \<and>
      process_row cdr_ok \<lparr>proddesc = 101, label_completed = ''1''\<rparr> st' = Inr st')"
proof -
  have c: "pairs_consistent (empty_state :: unit sync_state)"
    by (simp add: pairs_consistent_def empty_state_def)
  obtain st' where r: "process_rows cdr_ok two_rows empty_state = Inr st'"
    and d: "dom (legends st') = {101, 102}" "dom (images st') = {101, 102}"
    by (auto simp: two_rows_def cdr_ok_def empty_state_def
     process_row_def retrieve_legend_def retrieve_image_def download_ngmdb_tif_def)
  from completed_run_keeps_pairs[of cdr_ok two_rows empty_state st']
    completed_run_keeps_pairs[where con = cdr_ok and st = st'
      and row = "\<lparr>proddesc = 101, label_completed = ''1''\<rparr>"]
    r c d
  have "pairs_consistent st' \<and> process_row cdr_ok \<lparr>proddesc = 101, label_completed = ''1''\<rparr> st' = Inr st'"
    by simp
  with c r d show ?thesis by blast
qed

text \<open>
  C5, as it is stated, fails: started on empty directories, a run in which the image
  request of row 101 raises leaves \<open>legends/stepup_101.json\<close> behind and no
  \<open>images/stepup_101.tif\<close>.
\<close>

theorem image_failure_leaves_legend_alone:
  "pairs_consistent (empty_state :: unit sync_state) \<and>
   101 \<in> dom (legends (final_state (process_rows cdr_image_raises two_rows empty_state))) \<and>
   101 \<notin> dom (images (final_state (process_rows cdr_image_raises two_rows empty_state)))"
  by (simp add: pairs_consistent_def final_state_def two_rows_def cdr_image_raises_def cdr_ok_def empty_state_def
     process_row_def retrieve_legend_def retrieve_image_def download_ngmdb_tif_def)

subsection \<open>C6: preprocessing of a unit\<close>

text \<open>
  C6. The type a unit carries when it reaches the classifier has no influence: the
  result for the unit with any other type is the same. A unit with an empty label and an
  abbreviation is appended with the abbreviation as its label, and a unit with a
  non-empty label keeps it.
\<close>

theorem preprocessing_discards_type:
  "classify_feature d (f\<lparr>type := t\<rparr>) (out, stat) = classify_feature d f (out, stat) \<and>
   (label f = [] \<and> abbreviation' f = Some a \<longrightarrow>
      (\<exists>t' stat'. classify_feature d f (out, stat) =
          Inr (out @ [f\<lparr>label := a, type := t'\<rparr>], stat'))) \<and>
   (label f \<noteq> [] \<longrightarrow>
      (\<exists>t' stat'. classify_feature d f (out, stat) =
          Inr (out @ [f\<lparr>label := label f, type := t'\<rparr>], stat')))"
proof (intro conjI impI)
  show "classify_feature d (f\<lparr>type := t\<rparr>) (out, stat) = classify_feature d f (out, stat)"
    by (rule classify_feature_prior_type)
next
  assume "label f = [] \<and> abbreviation' f = Some a"
  then have "held_label f = Some a" by (simp add: held_label_def)
  then show "\<exists>t' stat'. classify_feature d f (out, stat) =
          Inr (out @ [f\<lparr>label := a, type := t'\<rparr>], stat')"
    by (rule classify_appends)
next
  assume "label f \<noteq> []"
  then have "held_label f = Some (label f)" by (simp add: held_label_def)
  then show "\<exists>t' stat'. classify_feature d f (out, stat) =
          Inr (out @ [f\<lparr>label := label f, type := t'\<rparr>], stat')"
    by (rule classify_appends)
qed

text \<open>A unit typed Point upstream with an empty label and the abbreviation
  Normal Fault becomes a Line labelled Normal Fault; a unit typed Point upstream and
  labelled Gravel pit comes out Unknown.\<close>

theorem preprocessing_discards_type_witness:
  "classify_feature scenario_labels abbreviated_unit ([], empty_stat) =
     Inr ([abbreviated_unit\<lparr>label := ''Normal Fault'', type := LINE\<rparr>],
          empty_stat\<lparr>stat_Likely_Lines := [''fault'']\<rparr>) \<and>
   classify_feature scenario_labels ((unit_of_label ''Gravel pit'')\<lparr>type := POINT\<rparr>) ([], empty_stat) =
     Inr ([(unit_of_label ''Gravel pit'')\<lparr>type := UNKNOWN\<rparr>],
          empty_stat\<lparr>stat_Unknown := [''gravel pit'']\<rparr>)"
proof -
  have a: "label abbreviated_unit = [] \<and> abbreviation' abbreviated_unit = Some ''Normal Fault''"
    by (simp add: abbreviated_unit_def)
  from preprocessing_discards_type[where d = scenario_labels and f = abbreviated_unit and t = POINT
      and out = "[]" and stat = empty_stat and a = "''Normal Fault''"] a
  obtain t' stat' where
    r: "classify_feature scenario_labels abbreviated_unit ([], empty_stat) =
          Inr ([] @ [abbreviated_unit\<lparr>label := ''Normal Fault'', type := t'\<rparr>], stat')"
    by blast
  have e: "classify_feature scenario_labels abbreviated_unit ([], empty_stat) =
     Inr ([abbreviated_unit\<lparr>label := ''Normal Fault'', type := LINE\<rparr>],
          empty_stat\<lparr>stat_Likely_Lines := [''fault'']\<rparr>)"
    by code_simp
  have n: "label (unit_of_label ''Gravel pit'') \<noteq> []" by (simp add: unit_of_label_def)
  have u: "classify_feature scenario_labels (unit_of_label ''Gravel pit'') ([], empty_stat) =
     Inr ([(unit_of_label ''Gravel pit'')\<lparr>type := UNKNOWN\<rparr>],
          empty_stat\<lparr>stat_Unknown := [''gravel pit'']\<rparr>)"
    by code_simp
  from preprocessing_discards_type[where d = scenario_labels and f = "unit_of_label ''Gravel pit''"
      and t = POINT and out = "[]" and stat = empty_stat] u
  have "classify_feature scenario_labels ((unit_of_label ''Gravel pit'')\<lparr>type := POINT\<rparr>) ([], empty_stat) =
     Inr ([(unit_of_label ''Gravel pit'')\<lparr>type := UNKNOWN\<rparr>],
          empty_stat\<lparr>stat_Unknown := [''gravel pit'']\<rparr>)"
    by simp
  with e r show ?thesis by blast
qed

subsection \<open>C7: every unit is kept, in order\<close>

text \<open>
  C7. For a legend in which every unit holds a label (none has an empty label and no
  abbreviation), the loop returns an output legend that has as many units as the
  input and, the assigned types set aside, is the input list itself with the labels
  the units hold: each unit appears once, at its place, whatever its type.
\<close>

theorem every_unit_retained_in_order:
  "\<forall>f\<in>set fs. held_label f \<noteq> None \<Longrightarrow>
   \<exists>output_features stat'.
      classify_legend d fs stat = Inr (output_features, stat') \<and>
      length output_features = length fs \<and>
      map (\<lambda>u. u\<lparr>type := UNKNOWN\<rparr>) output_features =
        map (\<lambda>f. (relabelled f)\<lparr>type := UNKNOWN\<rparr>) fs"
proof -
  assume "\<forall>f\<in>set fs. held_label f \<noteq> None"
  from classify_features_appends[OF this, of d "[]" stat] obtain new stat' where
    r: "classify_features d fs ([], stat) = Inr ([] @ new, stat')"
       "map (\<lambda>u. u\<lparr>type := UNKNOWN\<rparr>) new = map (\<lambda>f. (relabelled f)\<lparr>type := UNKNOWN\<rparr>) fs"
    by blast
  from r(2) have "length (map (\<lambda>u. u\<lparr>type := UNKNOWN\<rparr>) new) =
      length (map (\<lambda>f. (relabelled f)\<lparr>type := UNKNOWN\<rparr>) fs)"
    by simp
  then have "length new = length fs" by simp
  with r show ?thesis by (simp add: classify_legend_def)
qed

text \<open>The five units of the scenario come out as five units, in the same order.\<close>

theorem every_unit_retained_in_order_witness:
  "\<exists>output_features stat'.
      classify_legend scenario_labels scenario_units empty_stat = Inr (output_features, stat') \<and>
      length output_features = 5 \<and>
      map type output_features = [POINT, LINE, POLYGON, POLYGON, POLYGON] \<and>
      map (\<lambda>u. u\<lparr>type := UNKNOWN\<rparr>) output_features = scenario_units"
proof -
  have h: "\<forall>f\<in>set scenario_units. held_label f \<noteq> None"
    by (simp add: scenario_units_def unit_of_label_def held_label_def)
  have r: "map (\<lambda>f. (relabelled f)\<lparr>type := UNKNOWN\<rparr>) scenario_units = scenario_units"
    by (simp add: scenario_units_def unit_of_label_def held_label_def relabelled_def)
  have n: "length scenario_units = 5" by (simp add: scenario_units_def)
  from every_unit_retained_in_order[OF h, of scenario_labels empty_stat] obtain out stat' where
    o: "classify_legend scenario_labels scenario_units empty_stat = Inr (out, stat')"
       "length out = length scenario_units"
       "map (\<lambda>u. u\<lparr>type := UNKNOWN\<rparr>) out =
          map (\<lambda>f. (relabelled f)\<lparr>type := UNKNOWN\<rparr>) scenario_units"
    by blast
  have t: "assigned_types scenario_labels scenario_units = Inr [POINT, LINE, POLYGON, POLYGON, POLYGON]"
    by code_simp
  with o(1) have "map type out = [POINT, LINE, POLYGON, POLYGON, POLYGON]"
    by (simp add: assigned_types_def)
  with o show ?thesis by (simp add: r n)
qed

subsection \<open>C8: the known-label builder\<close>

text \<open>
  C8. Before deduplication the Points list is the lowercased labels of the Point
  features of all legends, in order; likewise Polygons and Unknown; the Lines list is
  the lowercased labels of the Line features followed by monocline, syncline,
  anticline, antiform and synform. The saved buckets are the sets of these lists.
  Lower-casing is the only change made to a label: blanks in front of it and behind
  it stay.
\<close>

theorem known_label_buckets:
  "Points (collect_true_labels true_legends) =
     map (\<lambda>f. str_lower (label f)) (features_of_type POINT true_legends) \<and>
   Lines (collect_true_labels true_legends) =
     map (\<lambda>f. str_lower (label f)) (features_of_type LINE true_legends) @
     [''monocline'', ''syncline'', ''anticline'', ''antiform'', ''synform''] \<and>
   Polygons (collect_true_labels true_legends) =
     map (\<lambda>f. str_lower (label f)) (features_of_type POLYGON true_legends) \<and>
   Unknown (collect_true_labels true_legends) =
     map (\<lambda>f. str_lower (label f)) (features_of_type UNKNOWN true_legends) \<and>
   unique_Points (gen_known_labels true_legends) =
     set (map (\<lambda>f. str_lower (label f)) (features_of_type POINT true_legends)) \<and>
   unique_Lines (gen_known_labels true_legends) =
     set (map (\<lambda>f. str_lower (label f)) (features_of_type LINE true_legends)) \<union>
     {''monocline'', ''syncline'', ''anticline'', ''antiform'', ''synform''} \<and>
   unique_Polygons (gen_known_labels true_legends) =
     set (map (\<lambda>f. str_lower (label f)) (features_of_type POLYGON true_legends)) \<and>
   unique_Unknown (gen_known_labels true_legends) =
     set (map (\<lambda>f. str_lower (label f)) (features_of_type UNKNOWN true_legends)) \<and>
   str_lower (replicate m (CHR '' '') @ s @ replicate n (CHR '' '')) =
     replicate m (CHR '' '') @ str_lower s @ replicate n (CHR '' '')"
  by (simp add: collect_true_labels_def gen_known_labels_def Let_def add_legends_labels_buckets
      known_lines_def str_lower_padding)

subsection \<open>C9: the document written for a legend\<close>

text \<open>
  C9. The document has version 5.0.1 and the flag source = StepUp, and its shapes are,
  unit after unit, what the specification describes: a rectangle labelled with the
  label (spaces replaced by underscores) and the type suffix, none for Unknown, and
  for a unit with a description region a second rectangle with the same label and
  \<open>_desc\<close>. The labels of the legend's units are left with their spaces replaced.
\<close>

theorem stepup_document:
  "saveSteupUpJson to_str fs =
     (\<lparr>version = ''5.0.1'', flags = [(''source'', ''StepUp'')],
       shapes = concat (map (spec_shapes to_str) fs)\<rparr>,
      map (\<lambda>u. u\<lparr>label := replace_spaces (label u)\<rparr>) fs) \<and>
   replace_spaces s = map (\<lambda>c. if c = CHR '' '' then CHR ''_'' else c) s"
  by (simp add: saveSteupUpJson_def save_map_units_spec replace_spaces_def)

subsection \<open>C10: a unit without label text\<close>

text \<open>
  C10. A unit whose label and abbreviation are both the empty string is classified
  without an exception. If the empty string is in none of the three buckets it becomes
  a Polygon, counted under Likely_Polygons; in any case it is appended to the output
  with a type other than Unknown.
\<close>

theorem empty_label_is_polygon:
  "label f = [] \<Longrightarrow> abbreviation' f = Some [] \<Longrightarrow>
   ([] \<notin> set (Points d) \<and> [] \<notin> set (Lines d) \<and> [] \<notin> set (Polygons d) \<longrightarrow>
      classify_feature d f (out, stat) =
        Inr (out @ [f\<lparr>label := [], type := POLYGON\<rparr>],
             stat\<lparr>stat_Likely_Polygons := stat_Likely_Polygons stat @ [[]]\<rparr>)) \<and>
   (\<exists>t stat'. classify_feature d f (out, stat) = Inr (out @ [f\<lparr>label := [], type := t\<rparr>], stat') \<and>
      t \<noteq> UNKNOWN)"
proof -
  assume "label f = []" "abbreviation' f = Some []"
  then have h: "held_label f = Some []" by (simp add: held_label_def)
  have l: "str_lower [] = []" by (simp add: str_lower_def)
  have short: "[] \<notin> set (Points d) \<and> [] \<notin> set (Lines d) \<and> [] \<notin> set (Polygons d) \<longrightarrow>
      classify_feature d f (out, stat) =
        Inr (out @ [f\<lparr>label := [], type := POLYGON\<rparr>],
             stat\<lparr>stat_Likely_Polygons := stat_Likely_Polygons stat @ [[]]\<rparr>)"
    using classify_short[OF h, of d out stat] by (simp add: l)
  have "\<exists>t stat'. classify_feature d f (out, stat) = Inr (out @ [f\<lparr>label := [], type := t\<rparr>], stat') \<and>
      t \<noteq> UNKNOWN"
  proof -
    consider (point) "[] \<in> set (Points d)"
      | (line) "[] \<notin> set (Points d)" "[] \<in> set (Lines d)"
      | (polygon) "[] \<notin> set (Points d)" "[] \<notin> set (Lines d)" "[] \<in> set (Polygons d)"
      | (none) "[] \<notin> set (Points d)" "[] \<notin> set (Lines d)" "[] \<notin> set (Polygons d)"
      by blast
    then show ?thesis
    proof cases
      case point
      with classify_exact_point[OF h, of d out stat] show ?thesis by (auto simp: l)
    next
      case line
      with classify_exact_line[OF h, of d out stat] show ?thesis by (auto simp: l)
    next
      case polygon
      with classify_exact_polygon[OF h, of d out stat] show ?thesis by (auto simp: l)
    next
      case none
      with short show ?thesis by auto
    qed
  qed
  with short show ?thesis by blast
qed

text \<open>The unit with empty label and empty abbreviation under the scenario's
  dictionary.\<close>

theorem empty_label_is_polygon_witness:
  "classify_feature scenario_labels blank_unit ([], empty_stat) =
     Inr ([blank_unit\<lparr>label := [], type := POLYGON\<rparr>],
          empty_stat\<lparr>stat_Likely_Polygons := [[]]\<rparr>)"
proof -
  have a: "label blank_unit = []" "abbreviation' blank_unit = Some []"
    by (simp_all add: blank_unit_def)
  have n: "[] \<notin> set (Points scenario_labels) \<and> [] \<notin> set (Lines scenario_labels) \<and>
     [] \<notin> set (Polygons scenario_labels)"
    by (simp add: scenario_labels_def)
  have s: "stat_Likely_Polygons empty_stat = []" by (simp add: empty_stat_def)
  from empty_label_is_polygon[OF a, of scenario_labels "[]" empty_stat] n
  show ?thesis by (simp add: s)
qed

end
